theory Spec2Isabelle
  imports Complex_Main
begin

section \<open>The host: Electron objects and library functions the module calls\<close>

text \<open>
  The module keeps three byte counters and a set of download items per registration and
  reacts to three events of the host: \<open>will-download\<close> on the session, \<open>updated\<close> and
  \<open>done\<close> on each item. Everything it does to the outside (badge, progress bar, dialogs,
  the callbacks of the options) is recorded as a trace of effects, in program order.

  Byte counts are JavaScript numbers holding integers; they are modelled as \<open>int\<close>
  (exact below \<open>2^53\<close>). A quotient of two of them is modelled by \<open>js_div\<close>, which
  keeps the special values of a division by zero and is exact otherwise (the rounding of
  IEEE doubles is not modelled).
\<close>

type_synonym item_id = nat
type_synonym window_id = nat
type_synonym session_id = nat

datatype number = Num rat | NaN | PosInfinity | NegInfinity

definition js_div :: "int \<Rightarrow> int \<Rightarrow> number" where
  "js_div a b =
     (if b = 0 then (if a = 0 then NaN else if 0 < a then PosInfinity else NegInfinity)
      else Num (of_int a / of_int b))"

text \<open>A \<open>DownloadItem\<close> of the host, read through its accessors.\<close>

record download_item =
  getFilename :: string
  getMimeType :: string
  getTotalBytes :: int
  getReceivedBytes :: int

text \<open>
  A \<open>webContents\<close>: its type, the window \<open>BrowserWindow.fromWebContents\<close> finds for it
  (\<open>None\<close> is JavaScript's \<open>null\<close>) and, for a webview, its \<open>hostWebContents\<close>.
\<close>

datatype webContents =
  WebContents (getType: string) (owner: "window_id option") (hostWebContents: "webContents option")

fun BrowserWindow_fromWebContents :: "webContents option \<Rightarrow> window_id option" where
  "BrowserWindow_fromWebContents None = None"
| "BrowserWindow_fromWebContents (Some wc) = owner wc"

text \<open>What the host owns and changes on its own: the items and which windows are destroyed.\<close>

record world =
  items :: "item_id \<Rightarrow> download_item"
  isDestroyed :: "window_id \<Rightarrow> bool"

record ext_entry =
  ext :: string
  mime :: string

text \<open>
  The platform and the functions of Node and of the packages \<open>ext-name\<close>,
  \<open>unused-filename\<close> and \<open>pupa\<close>. They are not code of this module, so they are
  parameters of the model. \<open>pupa t f\<close> stands for \<open>pupa(t, {filename: f})\<close>.
\<close>

record host =
  process_platform :: string
  app_getPath_downloads :: string
  extName_mime :: "string \<Rightarrow> ext_entry list"
  path_extname :: "string \<Rightarrow> string"
  path_join :: "string \<Rightarrow> string \<Rightarrow> string"
  unusedFilename_sync :: "string \<Rightarrow> string"
  pupa :: "string \<Rightarrow> string \<Rightarrow> string"

section \<open>Options, effects and the state of one registration\<close>

record webview_opt =
  wv_item :: item_id
  wv_webContents :: webContents

text \<open>
  The options object. A callback field says whether a function was supplied
  (\<open>typeof options.onStarted === 'function'\<close>); \<open>showBadge\<close> is \<open>None\<close> when the caller
  left the key out; a string option is \<open>None\<close> when it is missing.
\<close>

record options =
  saveAs :: bool
  directory :: "string option"
  filename :: "string option"
  errorTitle :: "string option"
  errorMessage :: "string option"
  onStarted :: bool
  onProgress :: bool
  onCancel :: bool
  openFolderWhenDone :: bool
  showBadge :: "bool option"
  unregisterWhenDone :: bool
  webview :: "webview_opt option"

text \<open>\<open>a || b\<close> on an optional string: the empty string and \<open>undefined\<close> are falsy.\<close>

fun or_default :: "string option \<Rightarrow> string \<Rightarrow> string" where
  "or_default None d = d"
| "or_default (Some s) d = (if s = [] then d else s)"

fun truthy_string :: "string option \<Rightarrow> bool" where
  "truthy_string None = False"
| "truthy_string (Some s) = (s \<noteq> [])"

datatype progress =
  Progress (percent: number) (transferredBytes: int) (progress_totalBytes: int)

datatype done_state = Completed | Cancelled | Interrupted

datatype js_error = TypeError

text \<open>
  \<open>Callback e i\<close> is a call of the completion callback: \<open>callback(new Error(m))\<close> is
  \<open>Callback (Some m) None\<close> and \<open>callback(null, item)\<close> is \<open>Callback None (Some item)\<close>.
  \<open>Uncaught\<close> marks a handler that ended in an exception.
\<close>

datatype effect =
    SetSavePath item_id string
  | OnStarted item_id
  | SetBadgeCount nat
  | SetProgressBar window_id number
  | OnProgress progress
  | RemoveListener
  | OnCancel item_id
  | ShowErrorBox string string
  | Callback "string option" "item_id option"
  | DockDownloadFinished string
  | ShowItemInFolder string
  | Uncaught js_error

text \<open>The variables one call of \<open>listener\<close> leaves to the two handlers it installs.\<close>

record closure =
  cl_window :: "window_id option"
  cl_directory :: string
  filePath :: string
  cl_errorMessage :: string
  cl_errorTitle :: string

text \<open>
  The variables of one call of \<open>registerListener\<close>. \<open>downloadItems\<close> is a JavaScript
  \<open>Set\<close>: a list in insertion order without duplicates. \<open>listening\<close> says whether
  \<open>listener\<close> is attached to the session's \<open>will-download\<close>; \<open>handlers\<close> are the
  \<open>updated\<close>/\<open>done\<close> handlers installed so far, each with the item it is attached to.
\<close>

record registration =
  reg_options :: options
  downloadItems :: "item_id list"
  receivedBytes :: int
  completedBytes :: int
  totalBytes :: int
  listening :: bool
  handlers :: "(item_id \<times> closure) list"

definition set_add :: "item_id \<Rightarrow> item_id list \<Rightarrow> item_id list" where
  "set_add i xs = (if i \<in> set xs then xs else xs @ [i])"

definition set_delete :: "item_id \<Rightarrow> item_id list \<Rightarrow> item_id list" where
  "set_delete i xs = filter (\<lambda>j. j \<noteq> i) xs"

definition activeDownloadItems :: "registration \<Rightarrow> nat" where
  "activeDownloadItems s = length (downloadItems s)"

definition progressDownloadItems :: "registration \<Rightarrow> number" where
  "progressDownloadItems s = js_div (receivedBytes s) (totalBytes s)"

definition badge_enabled :: "host \<Rightarrow> options \<Rightarrow> bool" where
  "badge_enabled h opts =
     (showBadge opts = Some True \<and> process_platform h \<in> set [''darwin'', ''linux''])"

section \<open>The module\<close>

definition getFilenameFromMime :: "host \<Rightarrow> string \<Rightarrow> string \<Rightarrow> string" where
  "getFilenameFromMime h name m =
     (let extensions = extName_mime h m
      in if length extensions \<noteq> 1 then name
         else name @ ''.'' @ ext (hd extensions))"

text \<open>Lines 47 and 48 of \<open>listener\<close>: the name the file gets when no \<open>filename\<close> is given.\<close>

definition derived_name :: "host \<Rightarrow> download_item \<Rightarrow> string" where
  "derived_name h it =
     (let fname = getFilename it
      in if path_extname h fname \<noteq> [] then fname
         else getFilenameFromMime h fname (getMimeType it))"

definition listener ::
  "host \<Rightarrow> world \<Rightarrow> item_id \<Rightarrow> webContents \<Rightarrow> registration \<Rightarrow> registration \<times> effect list" where
  "listener h w i wc s =
     (let opts = reg_options s;
          it = items w i;
          s1 = s\<lparr>downloadItems := set_add i (downloadItems s),
                 totalBytes := totalBytes s + getTotalBytes it\<rparr>;
          hostWC = (if getType wc = ''webview'' then hostWebContents wc else Some wc);
          win = BrowserWindow_fromWebContents hostWC;
          dir = or_default (directory opts) (app_getPath_downloads h);
          fp = (if truthy_string (filename opts)
                then path_join h dir (the (filename opts))
                else unusedFilename_sync h (path_join h dir (derived_name h it)));
          c = \<lparr>cl_window = win, cl_directory = dir, filePath = fp,
               cl_errorMessage =
                 or_default (errorMessage opts) ''The download of {filename} was interrupted'',
               cl_errorTitle = or_default (errorTitle opts) ''Download Error''\<rparr>
      in (s1\<lparr>handlers := handlers s1 @ [(i, c)]\<rparr>,
          (if \<not> saveAs opts then [SetSavePath i fp] else []) @
          (if onStarted opts then [OnStarted i] else [])))"

text \<open>
  The \<open>updated\<close> handler of item \<open>i\<close>. It returns the new state, the effects and the
  exception it ended in, if any: \<open>window_.isDestroyed()\<close> on \<open>null\<close> is a \<open>TypeError\<close>.
\<close>

definition updated_handler ::
  "host \<Rightarrow> world \<Rightarrow> closure \<Rightarrow> item_id \<Rightarrow> registration
     \<Rightarrow> registration \<times> effect list \<times> js_error option" where
  "updated_handler h w c i s =
     (let opts = reg_options s;
          s1 = s\<lparr>receivedBytes :=
                   fold (\<lambda>j acc. acc + getReceivedBytes (items w j)) (downloadItems s)
                     (completedBytes s)\<rparr>;
          e1 = (if badge_enabled h opts then [SetBadgeCount (activeDownloadItems s1)] else [])
      in case cl_window c of
           None \<Rightarrow> (s1, e1, Some TypeError)
         | Some win \<Rightarrow>
             (s1,
              e1 @
              (if \<not> isDestroyed w win then [SetProgressBar win (progressDownloadItems s1)]
               else []) @
              (if onProgress opts
               then (let itemTransferredBytes = getReceivedBytes (items w i);
                         itemTotalBytes = getTotalBytes (items w i)
                     in [OnProgress
                           (Progress
                              (if itemTotalBytes \<noteq> 0
                               then js_div itemTransferredBytes itemTotalBytes else Num 0)
                              itemTransferredBytes itemTotalBytes)])
               else []),
              None))"

text \<open>The dispatch on the terminal state at the end of the \<open>done\<close> handler.\<close>

definition done_dispatch ::
  "host \<Rightarrow> download_item \<Rightarrow> options \<Rightarrow> closure \<Rightarrow> item_id \<Rightarrow> done_state \<Rightarrow> effect list" where
  "done_dispatch h it opts c i st =
     (case st of
        Cancelled \<Rightarrow> (if onCancel opts then [OnCancel i] else [])
      | Interrupted \<Rightarrow>
          (let message = pupa h (cl_errorMessage c) (getFilename it)
           in [ShowErrorBox (cl_errorTitle c) message, Callback (Some message) None])
      | Completed \<Rightarrow>
          (if process_platform h = ''darwin'' then [DockDownloadFinished (filePath c)] else []) @
          (if openFolderWhenDone opts
           then [ShowItemInFolder (path_join h (cl_directory c) (getFilename it))] else []) @
          [Callback None (Some i)])"

definition done_handler ::
  "host \<Rightarrow> world \<Rightarrow> closure \<Rightarrow> item_id \<Rightarrow> done_state \<Rightarrow> registration
     \<Rightarrow> registration \<times> effect list \<times> js_error option" where
  "done_handler h w c i st s =
     (let opts = reg_options s;
          it = items w i;
          s1 = s\<lparr>completedBytes := completedBytes s + getTotalBytes it,
                 downloadItems := set_delete i (downloadItems s)\<rparr>;
          e1 = (if badge_enabled h opts then [SetBadgeCount (activeDownloadItems s1)] else [])
      in case cl_window c of
           None \<Rightarrow> (s1, e1, Some TypeError)
         | Some win \<Rightarrow>
             (let reset = (\<not> isDestroyed w win \<and> activeDownloadItems s1 = 0);
                  s2 = (if reset
                        then s1\<lparr>receivedBytes := 0, completedBytes := 0, totalBytes := 0\<rparr>
                        else s1);
                  e2 = (if reset then [SetProgressBar win (Num (- 1))] else []);
                  unreg = (unregisterWhenDone opts \<and> webview opts = None);
                  s3 = (if unreg then s2\<lparr>listening := False\<rparr> else s2);
                  e3 = (if unreg then [RemoveListener] else [])
              in (s3, e1 @ e2 @ e3 @ done_dispatch h it opts c i st, None)))"

text \<open>\<open>{showBadge: true, ...options}\<close>: the caller's value wins when the key is there.\<close>

definition resolve_options :: "options \<Rightarrow> options" where
  "resolve_options opts =
     opts\<lparr>showBadge := Some (case showBadge opts of None \<Rightarrow> True | Some b \<Rightarrow> b)\<rparr>"

definition registerListener :: "host \<Rightarrow> world \<Rightarrow> options \<Rightarrow> registration \<times> effect list" where
  "registerListener h w opts0 =
     (let opts = resolve_options opts0;
          s0 = \<lparr>reg_options = opts, downloadItems = [], receivedBytes = 0,
                completedBytes = 0, totalBytes = 0, listening = False, handlers = []\<rparr>
      in case webview opts of
           Some wv \<Rightarrow> listener h w (wv_item wv) (wv_webContents wv) s0
         | None \<Rightarrow> (s0\<lparr>listening := True\<rparr>, []))"

section \<open>Events of the host delivered to one registration\<close>

text \<open>
  \<open>emit\<close> calls the handlers attached to one item in the order they were installed, as an
  \<open>EventEmitter\<close> does; a handler that throws ends the delivery, the exception is not caught
  by the module.
\<close>

fun emit ::
  "(closure \<Rightarrow> registration \<Rightarrow> registration \<times> effect list \<times> js_error option)
     \<Rightarrow> closure list \<Rightarrow> registration \<Rightarrow> registration \<times> effect list" where
  "emit f [] s = (s, [])"
| "emit f (c # cs) s =
     (case f c s of
        (s', es, Some err) \<Rightarrow> (s', es @ [Uncaught err])
      | (s', es, None) \<Rightarrow> (let (s'', es') = emit f cs s' in (s'', es @ es')))"

definition handlers_of :: "item_id \<Rightarrow> registration \<Rightarrow> closure list" where
  "handlers_of i s = map snd (filter (\<lambda>p. fst p = i) (handlers s))"

text \<open>
  \<open>HostReceived\<close> and \<open>HostDestroyWindow\<close> are changes the host makes on its own (bytes
  arrive, a window is closed); no code of the module runs on them.
\<close>

datatype event =
    WillDownload item_id webContents
  | ItemUpdated item_id
  | ItemDone item_id done_state
  | HostReceived item_id int
  | HostDestroyWindow window_id

fun step :: "host \<Rightarrow> event \<Rightarrow> world \<times> registration \<Rightarrow> (world \<times> registration) \<times> effect list" where
  "step h (WillDownload i wc) (w, s) =
     (if listening s then (let (s', es) = listener h w i wc s in ((w, s'), es))
      else ((w, s), []))"
| "step h (ItemUpdated i) (w, s) =
     (let (s', es) = emit (\<lambda>c. updated_handler h w c i) (handlers_of i s) s in ((w, s'), es))"
| "step h (ItemDone i st) (w, s) =
     (let (s', es) = emit (\<lambda>c. done_handler h w c i st) (handlers_of i s) s in ((w, s'), es))"
| "step h (HostReceived i n) (w, s) =
     ((w\<lparr>items := (items w)(i := (items w i)\<lparr>getReceivedBytes := n\<rparr>)\<rparr>, s), [])"
| "step h (HostDestroyWindow win) (w, s) =
     ((w\<lparr>isDestroyed := (isDestroyed w)(win := True)\<rparr>, s), [])"

fun run :: "host \<Rightarrow> event list \<Rightarrow> world \<times> registration \<Rightarrow> (world \<times> registration) \<times> effect list" where
  "run h [] st = (st, [])"
| "run h (ev # evs) st =
     (let (st', es) = step h ev st; (st'', es') = run h evs st' in (st'', es @ es'))"

section \<open>\<open>download\<close> and its promise\<close>

text \<open>
  The first argument of \<open>download\<close>: an object with \<open>webContents\<close> (of the given session),
  a \<open>webview\<close> element with its \<open>partition\<close> attribute and whether
  \<open>remote.session.fromPartition\<close> finds a session for it, or anything else.
\<close>

datatype window_arg =
    HasWebContents session_id
  | WebviewElement string bool
  | OtherWindow

text \<open>
  What \<open>download\<close> does at once: it registers a listener on a session with the options it
  built and starts the download, or sends the request over IPC, or rejects.
\<close>

datatype download_action =
    Registered session_id options string
  | IpcSend options string string
  | Rejected string

definition download_options :: "options \<Rightarrow> options" where
  "download_options opts = opts\<lparr>unregisterWhenDone := True\<rparr>"

definition download :: "window_arg \<Rightarrow> string \<Rightarrow> options \<Rightarrow> download_action" where
  "download window url opts0 =
     (let opts = download_options opts0
      in case window of
           HasWebContents sess \<Rightarrow> Registered sess opts url
         | WebviewElement part found \<Rightarrow>
             (if found then IpcSend opts url part
              else Rejected ''Can't find partition attribute for webview. More details: https://www.electronjs.org/docs/api/webview-tag#partition'')
         | OtherWindow \<Rightarrow> Rejected ''Can't find webContents for selected window'')"

datatype settlement = Resolve "item_id option" | Reject string

text \<open>
  The callback \<open>download\<close> passes to \<open>registerListener\<close>: an \<open>Error\<close> object is truthy
  whatever its message.
\<close>

fun download_callback :: "string option \<Rightarrow> item_id option \<Rightarrow> settlement" where
  "download_callback (Some e) item = Reject e"
| "download_callback None item = Resolve item"

text \<open>
  The state of the promise after a trace of effects: the first call of the callback
  settles it, later calls change nothing, and with no call it stays pending (\<open>None\<close>).
\<close>

fun promise_after :: "effect list \<Rightarrow> settlement option" where
  "promise_after [] = None"
| "promise_after (Callback e i # es) = Some (download_callback e i)"
| "promise_after (x # es) = promise_after es"

section \<open>A sample host for the examples\<close>

text \<open>
  A host with POSIX paths and no file on disk. Its table of extensions has one entry for
  \<open>application/pdf\<close>, two for \<open>audio/mpeg\<close> and none for anything else.
  \<open>sample_pupa\<close> replaces each \<open>{filename}\<close> of the template.
\<close>

fun sample_pupa :: "string \<Rightarrow> string \<Rightarrow> string" where
  "sample_pupa [] f = []"
| "sample_pupa (c # cs) f =
     (if take 10 (c # cs) = ''{filename}'' then f @ sample_pupa (drop 9 cs) f
      else c # sample_pupa cs f)"

definition sample_extName_mime :: "string \<Rightarrow> ext_entry list" where
  "sample_extName_mime m =
     (if m = ''application/pdf'' then [\<lparr>ext = ''pdf'', mime = ''application/pdf''\<rparr>]
      else if m = ''audio/mpeg''
      then [\<lparr>ext = ''mp3'', mime = ''audio/mpeg''\<rparr>, \<lparr>ext = ''mpga'', mime = ''audio/mpeg''\<rparr>]
      else [])"

definition sample_extname :: "string \<Rightarrow> string" where
  "sample_extname p =
     (let r = takeWhile (\<lambda>c. c \<noteq> CHR ''.'') (rev p)
      in if length r = length p \<or> length r + 1 = length p then [] else CHR ''.'' # rev r)"

definition sample_host :: host where
  "sample_host =
     \<lparr>process_platform = ''linux'', app_getPath_downloads = ''/home/u/Downloads'',
      extName_mime = sample_extName_mime, path_extname = sample_extname,
      path_join = (\<lambda>d n. d @ ''/'' @ n), unusedFilename_sync = (\<lambda>p. p),
      pupa = sample_pupa\<rparr>"

definition no_options :: options where
  "no_options =
     \<lparr>saveAs = False, directory = None, filename = None, errorTitle = None,
      errorMessage = None, onStarted = False, onProgress = False, onCancel = False,
      openFolderWhenDone = False, showBadge = None, unregisterWhenDone = False,
      webview = None\<rparr>"

text \<open>
  The scenario of the specification: item 1 of 100 bytes and item 2 of 200 bytes, both
  started from the web contents of window 7, nothing received yet.
\<close>

definition sample_items :: "item_id \<Rightarrow> download_item" where
  "sample_items i =
     (if i = 1
      then \<lparr>getFilename = ''report'', getMimeType = ''application/pdf'',
            getTotalBytes = 100, getReceivedBytes = 0\<rparr>
      else \<lparr>getFilename = ''file.zip'', getMimeType = ''application/zip'',
            getTotalBytes = 200, getReceivedBytes = 0\<rparr>)"

definition sample_world :: world where
  "sample_world = \<lparr>items = sample_items, isDestroyed = (\<lambda>w. False)\<rparr>"

definition window7 :: webContents where
  "window7 = WebContents ''window'' (Some 7) None"

definition no_window :: webContents where
  "no_window = WebContents ''window'' None None"

definition sample_start :: "options \<Rightarrow> world \<times> registration" where
  "sample_start opts = (sample_world, fst (registerListener sample_host sample_world opts))"

section \<open>The byte counters as the specification words them\<close>

text \<open>
  The specification's invariant of the byte counters, written from its words:
  \<open>receivedBytes\<close> is \<open>completedBytes\<close> plus the sum of the received bytes of the items
  in the active set.
\<close>

definition sum_active_received :: "world \<Rightarrow> registration \<Rightarrow> int" where
  "sum_active_received w s =
     sum_list (map (\<lambda>j. getReceivedBytes (items w j)) (downloadItems s))"

definition byte_invariant :: "world \<times> registration \<Rightarrow> bool" where
  "byte_invariant st =
     (receivedBytes (snd st) = completedBytes (snd st) + sum_active_received (fst st) (snd st))"

text \<open>
  Two items start, 40 bytes of item 1 arrive and its \<open>updated\<close> handler runs, then item 1
  is cancelled.
\<close>

definition cancel_scenario :: "event list" where
  "cancel_scenario =
     [WillDownload 1 window7, WillDownload 2 window7, HostReceived 1 40, ItemUpdated 1,
      ItemDone 1 Cancelled]"

text \<open>Options for the examples.\<close>

definition pdf_options :: options where
  "pdf_options =
     no_options\<lparr>saveAs := True, onProgress := True, showBadge := Some False,
                unregisterWhenDone := False\<rparr>"

definition progress_options :: options where
  "progress_options =
     no_options\<lparr>onProgress := True, onCancel := True, openFolderWhenDone := True\<rparr>"

definition directory_options :: options where
  "directory_options =
     no_options\<lparr>directory := Some ''/data'', filename := Some ''invoice.pdf'',
                openFolderWhenDone := True\<rparr>"

definition localized_options :: options where
  "localized_options =
     no_options\<lparr>errorTitle := Some ''Oops'', errorMessage := Some ''Lost {filename}''\<rparr>"

text \<open>
  A fresh registration in the sample world, the same after \<open>will-download\<close> for item 2 in
  window 7, and the closure this leaves to the handlers of item 2.
\<close>

definition sample_registered :: "options \<Rightarrow> registration" where
  "sample_registered opts = fst (registerListener sample_host sample_world opts)"

definition sample_tracking :: "options \<Rightarrow> registration" where
  "sample_tracking opts =
     fst (listener sample_host sample_world 2 window7 (sample_registered opts))"

definition sample_closure :: "options \<Rightarrow> closure" where
  "sample_closure opts = snd (last (handlers (sample_tracking opts)))"

text \<open>A host where \<open>file.zip\<close> is already on disk in the downloads directory.\<close>

definition busy_host :: host where
  "busy_host =
     sample_host\<lparr>unusedFilename_sync :=
       (\<lambda>p. if p = ''/home/u/Downloads/file.zip'' then ''/home/u/Downloads/file (1).zip''
            else p)\<rparr>"

text \<open>The sample world after 40 bytes of item 1 arrived; item 3 has an unknown size.\<close>

definition received_world :: world where
  "received_world =
     sample_world\<lparr>items :=
       sample_items(1 := (sample_items 1)\<lparr>getReceivedBytes := 40\<rparr>,
                    3 := (sample_items 3)\<lparr>getTotalBytes := 0, getReceivedBytes := 25\<rparr>)\<rparr>"

text \<open>
  The effects of the \<open>done\<close> handler before its dispatch on the state: the badge, the
  progress bar and the removal of the listener.
\<close>

fun bookkeeping :: "effect \<Rightarrow> bool" where
  "bookkeeping (SetBadgeCount n) = True"
| "bookkeeping (SetProgressBar win x) = True"
| "bookkeeping RemoveListener = True"
| "bookkeeping e = False"

text \<open>The closure the listener leaves for item 2 on \<open>busy_host\<close>.\<close>

definition busy_closure :: closure where
  "busy_closure =
     snd (last (handlers (fst (listener busy_host sample_world 2 window7
                                 (sample_registered progress_options)))))"

text \<open>
  Item 2 started from web contents that no window owns, and item 2 started in window 7,
  which is destroyed before the item's events arrive.
\<close>

definition no_window_scenario :: "event list" where
  "no_window_scenario = [WillDownload 2 no_window, ItemUpdated 2, ItemDone 2 Completed]"

definition destroyed_scenario :: "event list" where
  "destroyed_scenario =
     [WillDownload 2 window7, HostDestroyWindow 7, ItemUpdated 2, ItemDone 2 Completed]"

definition destroyed_world :: world where
  "destroyed_world = sample_world\<lparr>isDestroyed := (isDestroyed sample_world)(7 := True)\<rparr>"

text \<open>
  The items started and not yet done after a sequence of events, from the items \<open>init\<close>
  active at its beginning.
\<close>

fun pending_step :: "item_id set \<Rightarrow> event \<Rightarrow> item_id set" where
  "pending_step A (WillDownload i wc) = insert i A"
| "pending_step A (ItemDone i st) = A - {i}"
| "pending_step A ev = A"

definition pending :: "item_id list \<Rightarrow> event list \<Rightarrow> item_id set" where
  "pending init evs = foldl pending_step (set init) evs"

text \<open>The window of a handler's closure was found and is not destroyed.\<close>

definition window_alive :: "world \<Rightarrow> closure \<Rightarrow> bool" where
  "window_alive w c = (case cl_window c of None \<Rightarrow> False | Some win \<Rightarrow> \<not> isDestroyed w win)"

text \<open>Every active item has its handlers installed.\<close>

definition active_tracked :: "registration \<Rightarrow> bool" where
  "active_tracked s = (set (downloadItems s) \<subseteq> fst ` set (handlers s))"

text \<open>
  The scenario of the specification, with the window closed before the last item is done.
\<close>

definition closed_window_scenario :: "event list" where
  "closed_window_scenario =
     [WillDownload 1 window7, WillDownload 2 window7,
      HostReceived 1 100, ItemUpdated 1, ItemDone 1 Completed,
      HostReceived 2 200, ItemUpdated 2, HostDestroyWindow 7, ItemDone 2 Completed]"

definition two_items_scenario :: "event list" where
  "two_items_scenario =
     [WillDownload 1 window7, WillDownload 2 window7,
      HostReceived 1 100, ItemUpdated 1, ItemDone 1 Completed,
      HostReceived 2 200, ItemUpdated 2]"

text \<open>
  Item 2 started from web contents that no window owns and then interrupted, cancelled, or
  completed and followed by the start of item 1; and two items started in window 7, the
  first completed before the second is interrupted.
\<close>

definition interrupted_no_window_scenario :: "event list" where
  "interrupted_no_window_scenario = [WillDownload 2 no_window, ItemDone 2 Interrupted]"

definition settled_before_scenario :: "event list" where
  "settled_before_scenario =
     [WillDownload 1 window7, WillDownload 2 window7, ItemDone 1 Completed,
      ItemDone 2 Interrupted]"



section \<open>Evaluating the examples\<close>

lemmas sample_defs = sample_start_def sample_world_def sample_items_def sample_host_def
  no_options_def window7_def no_window_def registerListener_def resolve_options_def
  listener_def updated_handler_def done_handler_def done_dispatch_def handlers_of_def
  set_add_def set_delete_def badge_enabled_def activeDownloadItems_def
  progressDownloadItems_def js_div_def derived_name_def getFilenameFromMime_def
  sample_extName_mime_def sample_extname_def Let_def

section \<open>The aggregate counter\<close>

lemma fold_add_sum_list: "fold (\<lambda>j acc. acc + f j) xs (a::int) = a + sum_list (map f xs)"
  by (induction xs arbitrary: a) simp_all

lemma updated_handler_state:
  "fst (updated_handler h w c i s) =
     s\<lparr>receivedBytes := completedBytes s + sum_active_received w s\<rparr>"
  by (simp add: updated_handler_def Let_def sum_active_received_def fold_add_sum_list
      split: option.split)

text \<open>
  C1, the part that holds: after every run of an \<open>updated\<close> handler, whatever the item, the
  window and the state before, and also when the handler ends in the exception,
  \<open>receivedBytes\<close> equals \<open>completedBytes\<close> plus the sum of \<open>getReceivedBytes()\<close> over
  the items of the active set.
\<close>

theorem updated_recomputes_receivedBytes:
  "byte_invariant (w, fst (updated_handler h w c i s))"
  by (simp add: byte_invariant_def updated_handler_state sum_active_received_def)

text \<open>
  C1 as stated fails: the equation is not kept by a \<open>done\<close> event. The \<open>done\<close> handler adds
  the item's total to \<open>completedBytes\<close> and removes the item, and leaves \<open>receivedBytes\<close>
  as the last \<open>updated\<close> handler computed it. After \<open>cancel_scenario\<close> the counters are
  40 and 100 while the only active item has received nothing.
\<close>

theorem byte_invariant_broken_by_done:
  "receivedBytes (snd (fst (run sample_host cancel_scenario (sample_start no_options)))) = 40 \<and>
   completedBytes (snd (fst (run sample_host cancel_scenario (sample_start no_options)))) = 100 \<and>
   downloadItems (snd (fst (run sample_host cancel_scenario (sample_start no_options)))) = [2] \<and>
   \<not> byte_invariant (fst (run sample_host cancel_scenario (sample_start no_options)))"
  by (simp add: cancel_scenario_def byte_invariant_def sum_active_received_def sample_defs)

section \<open>The file name\<close>

text \<open>
  C3: for a suggested file name without an extension (\<open>path.extname\<close> gives the empty
  string) and any MIME type, the name used is the suggested name followed by a dot and the
  extension when \<open>ext-name\<close> knows exactly one extension for the MIME type, and the
  suggested name itself when it knows none or several; so the name changes exactly when
  there is exactly one extension.
\<close>

theorem getFilenameFromMime_unique_extension:
  assumes "path_extname h (getFilename it) = []"
  shows "derived_name h it =
           (if length (extName_mime h (getMimeType it)) = 1
            then getFilename it @ ''.'' @ ext (hd (extName_mime h (getMimeType it)))
            else getFilename it) \<and>
         (derived_name h it \<noteq> getFilename it \<longleftrightarrow>
            length (extName_mime h (getMimeType it)) = 1)"
  using assms by (simp add: derived_name_def getFilenameFromMime_def Let_def)

text \<open>The example of the specification: \<open>report\<close> with \<open>application/pdf\<close>.\<close>

theorem getFilenameFromMime_unique_extension_witness:
  "path_extname sample_host (getFilename (sample_items 1)) = [] \<and>
   getFilename (sample_items 1) = ''report'' \<and>
   getMimeType (sample_items 1) = ''application/pdf'' \<and>
   derived_name sample_host (sample_items 1) = ''report.pdf''"
  using getFilenameFromMime_unique_extension [of sample_host "sample_items 1"]
  by (simp add: sample_host_def sample_items_def sample_extname_def sample_extName_mime_def)

section \<open>The terminal states\<close>

lemmas closure_defs = sample_closure_def sample_tracking_def sample_registered_def

lemma promise_after_bookkeeping: "list_all bookkeeping pre \<Longrightarrow> promise_after (pre @ es) = promise_after es"
proof (induction pre)
  case Nil
  then show ?case by simp
next
  case (Cons e pre)
  then show ?case by (cases e) simp_all
qed

lemma bookkeeping_no_callback: "list_all bookkeeping pre \<Longrightarrow> Callback e it \<notin> set pre"
  by (induction pre) auto

lemma done_handler_shape:
  assumes "cl_window c = Some win"
  shows "\<exists>pre. list_all bookkeeping pre \<and>
           snd (done_handler h w c i st s) =
             (pre @ done_dispatch h (items w i) (reg_options s) c i st, None)"
proof -
  let ?s1 = "s\<lparr>completedBytes := completedBytes s + getTotalBytes (items w i),
               downloadItems := set_delete i (downloadItems s)\<rparr>"
  let ?pre = "(if badge_enabled h (reg_options s) then [SetBadgeCount (activeDownloadItems ?s1)] else []) @
              (if \<not> isDestroyed w win \<and> activeDownloadItems ?s1 = 0 then [SetProgressBar win (Num (- 1))] else []) @
              (if unregisterWhenDone (reg_options s) \<and> webview (reg_options s) = None then [RemoveListener] else [])"
  have "list_all bookkeeping ?pre" by simp
  moreover have "snd (done_handler h w c i st s) =
             (?pre @ done_dispatch h (items w i) (reg_options s) c i st, None)"
    using assms by (simp add: done_handler_def Let_def)
  ultimately show ?thesis by blast
qed

lemma listener_closure:
  "handlers (fst (listener h w i wc s)) = handlers s @ [(i,
      \<lparr>cl_window = BrowserWindow_fromWebContents
                     (if getType wc = ''webview'' then hostWebContents wc else Some wc),
       cl_directory = or_default (directory (reg_options s)) (app_getPath_downloads h),
       filePath =
         (if truthy_string (filename (reg_options s))
          then path_join h (or_default (directory (reg_options s)) (app_getPath_downloads h))
                 (the (filename (reg_options s)))
          else unusedFilename_sync h
                 (path_join h (or_default (directory (reg_options s)) (app_getPath_downloads h))
                    (derived_name h (items w i)))),
       cl_errorMessage =
         or_default (errorMessage (reg_options s)) ''The download of {filename} was interrupted'',
       cl_errorTitle = or_default (errorTitle (reg_options s)) ''Download Error''\<rparr>)]"
  by (simp add: listener_def Let_def)

lemma listener_reg_options: "reg_options (fst (listener h w i wc s)) = reg_options s"
  by (simp add: listener_def Let_def)

lemma registerListener_reg_options:
  "reg_options (fst (registerListener h w opts)) = resolve_options opts"
  by (simp add: registerListener_def Let_def listener_reg_options split: option.split)

lemma promise_after_append:
  "promise_after (xs @ ys) =
     (case promise_after xs of None \<Rightarrow> promise_after ys | Some x \<Rightarrow> Some x)"
proof (induction xs)
  case Nil
  then show ?case by simp
next
  case (Cons e xs)
  then show ?case by (cases e) simp_all
qed

lemma sample_pupa_default_template:
  "sample_pupa ''The download of {filename} was interrupted'' f =
     ''The download of '' @ f @ '' was interrupted''"
  by simp

text \<open>
  C5 as stated fails. When no window was found for the item, the \<open>done\<close> handler ends in
  the \<open>TypeError\<close> before its dispatch: no dialog, no callback, and the promise stays
  pending. And when an earlier item of the same registration has already settled the promise,
  the callback is called with the error but the promise keeps its first settlement.
\<close>

theorem interrupted_without_window_or_after_settling:
  "snd (run sample_host interrupted_no_window_scenario (sample_start no_options)) =
     [SetSavePath 2 ''/home/u/Downloads/file.zip'', SetBadgeCount 0, Uncaught TypeError] \<and>
   promise_after
     (snd (run sample_host interrupted_no_window_scenario
             (sample_start (download_options no_options)))) = None \<and>
   snd (run sample_host settled_before_scenario (sample_start (download_options no_options))) =
     [SetSavePath 1 ''/home/u/Downloads/report.pdf'',
      SetSavePath 2 ''/home/u/Downloads/file.zip'',
      SetBadgeCount 1, RemoveListener, Callback None (Some 1),
      SetBadgeCount 0, SetProgressBar 7 (Num (- 1)), RemoveListener,
      ShowErrorBox ''Download Error'' ''The download of file.zip was interrupted'',
      Callback (Some ''The download of file.zip was interrupted'') None] \<and>
   promise_after
     (snd (run sample_host settled_before_scenario
             (sample_start (download_options no_options)))) = Some (Resolve (Some 1))"
  by (simp add: interrupted_no_window_scenario_def settled_before_scenario_def
      download_options_def sample_defs)

text \<open>
  C5 as amended: when an item whose window was found ends \<open>interrupted\<close>, the handler
  takes as template the \<open>errorMessage\<close> option, or the default one when the option is
  missing or empty, lets \<open>pupa\<close> put the item's file name in, shows the error box with
  the \<open>errorTitle\<close> option (or \<open>Download Error\<close> when missing or empty) and this
  message, and then calls the callback with an \<open>Error\<close> of this message; only badge,
  progress bar and listener removal come before. The promise of \<open>download\<close> is rejected
  with that error when nothing has settled it before, and keeps its settlement otherwise.
\<close>

theorem interrupted_shows_dialog_then_rejects:
  assumes "c = snd (last (handlers (fst (listener h w0 i wc s0))))"
    and "cl_window c = Some win"
    and "title = (case errorTitle (reg_options s0) of
                    None \<Rightarrow> ''Download Error''
                  | Some t \<Rightarrow> if t = [] then ''Download Error'' else t)"
    and "message =
           pupa h (case errorMessage (reg_options s0) of
                     None \<Rightarrow> ''The download of {filename} was interrupted''
                   | Some m \<Rightarrow> if m = [] then ''The download of {filename} was interrupted''
                              else m)
             (getFilename (items w i))"
  shows "(\<exists>pre. list_all bookkeeping pre \<and>
            snd (done_handler h w c i Interrupted s) =
              (pre @ [ShowErrorBox title message, Callback (Some message) None], None)) \<and>
         (\<forall>before. promise_after (before @ fst (snd (done_handler h w c i Interrupted s))) =
            (case promise_after before of
               None \<Rightarrow> Some (Reject message)
             | Some x \<Rightarrow> Some x))"
proof -
  from done_handler_shape [OF assms(2)] obtain pre where
    pre: "list_all bookkeeping pre" and
    eq: "snd (done_handler h w c i Interrupted s) =
           (pre @ done_dispatch h (items w i) (reg_options s) c i Interrupted, None)"
    by blast
  have msg: "cl_errorMessage c =
      (case errorMessage (reg_options s0) of
         None \<Rightarrow> ''The download of {filename} was interrupted''
       | Some m \<Rightarrow> if m = [] then ''The download of {filename} was interrupted'' else m)"
    by (simp add: assms(1) listener_closure split: option.split)
  have ttl: "cl_errorTitle c = title"
    by (simp add: assms(1,3) listener_closure split: option.split)
  have d: "done_dispatch h (items w i) (reg_options s) c i Interrupted =
      [ShowErrorBox title message, Callback (Some message) None]"
    by (simp add: done_dispatch_def Let_def msg ttl assms(4))
  have a: "\<exists>pre. list_all bookkeeping pre \<and>
            snd (done_handler h w c i Interrupted s) =
              (pre @ [ShowErrorBox title message, Callback (Some message) None], None)"
    using pre eq unfolding d by blast
  have p: "promise_after (fst (snd (done_handler h w c i Interrupted s))) =
      Some (Reject message)"
    by (simp add: eq d promise_after_bookkeeping [OF pre])
  have b: "\<forall>before. promise_after (before @ fst (snd (done_handler h w c i Interrupted s))) =
            (case promise_after before of
               None \<Rightarrow> Some (Reject message)
             | Some x \<Rightarrow> Some x)"
    by (simp add: promise_after_append p split: option.split)
  from a b show ?thesis by blast
qed

text \<open>With a configured title and template, and with the defaults, for \<open>file.zip\<close>.\<close>

theorem interrupted_shows_dialog_then_rejects_witness:
  "cl_window (sample_closure localized_options) = Some 7 \<and>
   errorTitle (reg_options (sample_registered localized_options)) = Some ''Oops'' \<and>
   errorMessage (reg_options (sample_registered localized_options)) = Some ''Lost {filename}'' \<and>
   ShowErrorBox ''Oops'' ''Lost file.zip''
     \<in> set (fst (snd (done_handler sample_host sample_world (sample_closure localized_options)
                        2 Interrupted (sample_tracking localized_options)))) \<and>
   promise_after
     (fst (snd (done_handler sample_host sample_world (sample_closure localized_options)
                  2 Interrupted (sample_tracking localized_options)))) =
     Some (Reject ''Lost file.zip'') \<and>
   cl_window (sample_closure no_options) = Some 7 \<and>
   ShowErrorBox ''Download Error'' ''The download of file.zip was interrupted''
     \<in> set (fst (snd (done_handler sample_host sample_world (sample_closure no_options)
                        2 Interrupted (sample_tracking no_options)))) \<and>
   promise_after
     (fst (snd (done_handler sample_host sample_world (sample_closure no_options)
                  2 Interrupted (sample_tracking no_options)))) =
     Some (Reject ''The download of file.zip was interrupted'')"
proof -
  let ?l = localized_options and ?n = no_options
  have cl: "sample_closure ?l =
      snd (last (handlers (fst (listener sample_host sample_world 2 window7
                                  (sample_registered ?l)))))"
    and cn: "sample_closure ?n =
      snd (last (handlers (fst (listener sample_host sample_world 2 window7
                                  (sample_registered ?n)))))"
    by (simp_all add: sample_closure_def sample_tracking_def)
  have wl: "cl_window (sample_closure ?l) = Some 7"
    and wn: "cl_window (sample_closure ?n) = Some 7"
    by (simp_all add: closure_defs listener_closure window7_def)
  have rl: "reg_options (sample_registered ?l) = ?l\<lparr>showBadge := Some True\<rparr>"
    by (simp add: sample_registered_def registerListener_reg_options resolve_options_def
        localized_options_def no_options_def)
  have rn: "reg_options (sample_registered ?n) = ?n\<lparr>showBadge := Some True\<rparr>"
    by (simp add: sample_registered_def registerListener_reg_options resolve_options_def
        no_options_def)
  have ol: "errorTitle (reg_options (sample_registered ?l)) = Some ''Oops''"
    "errorMessage (reg_options (sample_registered ?l)) = Some ''Lost {filename}''"
    unfolding rl by (simp_all add: localized_options_def no_options_def)
  have on: "errorTitle (reg_options (sample_registered ?n)) = None"
    "errorMessage (reg_options (sample_registered ?n)) = None"
    unfolding rn by (simp_all add: no_options_def)
  have f: "getFilename (items sample_world 2) = ''file.zip''"
    by (simp add: sample_world_def sample_items_def)
  have pu: "pupa sample_host = sample_pupa" by (simp add: sample_host_def)
  note tl = interrupted_shows_dialog_then_rejects [OF cl wl refl refl,
      where w = sample_world and s = "sample_tracking ?l"]
  note tn = interrupted_shows_dialog_then_rejects [OF cn wn refl refl,
      where w = sample_world and s = "sample_tracking ?n"]
  from tl have l1: "ShowErrorBox ''Oops'' ''Lost file.zip''
     \<in> set (fst (snd (done_handler sample_host sample_world (sample_closure ?l)
                        2 Interrupted (sample_tracking ?l))))"
    by (auto simp add: ol f pu)
  from tl [THEN conjunct2, rule_format, of "[]"]
  have l2: "promise_after
     (fst (snd (done_handler sample_host sample_world (sample_closure ?l)
                  2 Interrupted (sample_tracking ?l)))) = Some (Reject ''Lost file.zip'')"
    by (simp add: ol f pu)
  from tn have n1: "ShowErrorBox ''Download Error'' ''The download of file.zip was interrupted''
     \<in> set (fst (snd (done_handler sample_host sample_world (sample_closure ?n)
                        2 Interrupted (sample_tracking ?n))))"
    by (auto simp add: on f pu)
  from tn [THEN conjunct2, rule_format, of "[]"]
  have n2: "promise_after
     (fst (snd (done_handler sample_host sample_world (sample_closure ?n)
                  2 Interrupted (sample_tracking ?n)))) =
     Some (Reject ''The download of file.zip was interrupted'')"
    by (simp add: on f pu)
  from wl ol l1 l2 wn n1 n2 show ?thesis by blast
qed








section \<open>The options of \<open>download\<close>\<close>

text \<open>
  C9: when \<open>download\<close> registers a listener, the options it passes have
  \<open>unregisterWhenDone\<close> true whatever the caller gave, the registration made from them
  keeps it true, and every other field is the caller's.
\<close>

theorem download_forces_unregisterWhenDone:
  assumes "download window url opts = Registered sess opts' url'"
  shows "unregisterWhenDone opts' \<and>
         unregisterWhenDone (reg_options (fst (registerListener h w opts'))) \<and>
         saveAs opts' = saveAs opts \<and> directory opts' = directory opts \<and>
         filename opts' = filename opts \<and> errorTitle opts' = errorTitle opts \<and>
         errorMessage opts' = errorMessage opts \<and> onStarted opts' = onStarted opts \<and>
         onProgress opts' = onProgress opts \<and> onCancel opts' = onCancel opts \<and>
         openFolderWhenDone opts' = openFolderWhenDone opts \<and>
         showBadge opts' = showBadge opts \<and> webview opts' = webview opts"
proof -
  from assms have eq: "opts' = download_options opts"
    by (simp add: download_def Let_def split: window_arg.splits if_splits)
  show ?thesis
    by (simp add: eq download_options_def registerListener_reg_options resolve_options_def)
qed

text \<open>A caller who passes \<open>unregisterWhenDone: false\<close> gets it overridden.\<close>

theorem download_forces_unregisterWhenDone_witness:
  "download (HasWebContents 3) ''https://x/file.zip'' pdf_options =
     Registered 3 (pdf_options\<lparr>unregisterWhenDone := True\<rparr>) ''https://x/file.zip'' \<and>
   \<not> unregisterWhenDone pdf_options \<and>
   unregisterWhenDone (pdf_options\<lparr>unregisterWhenDone := True\<rparr>) \<and>
   saveAs (pdf_options\<lparr>unregisterWhenDone := True\<rparr>) = saveAs pdf_options \<and>
   showBadge (pdf_options\<lparr>unregisterWhenDone := True\<rparr>) = showBadge pdf_options"
proof -
  have d: "download (HasWebContents 3) ''https://x/file.zip'' pdf_options =
     Registered 3 (pdf_options\<lparr>unregisterWhenDone := True\<rparr>) ''https://x/file.zip''"
    by (simp add: download_def download_options_def)
  have n: "\<not> unregisterWhenDone pdf_options"
    by (simp add: pdf_options_def)
  from download_forces_unregisterWhenDone [OF d, of sample_host sample_world] d n
  show ?thesis by blast
qed

section \<open>The progress callback\<close>

text \<open>
  C4: every payload an \<open>updated\<close> handler passes to \<open>onProgress\<close> has the item's own
  received bytes as \<open>transferredBytes\<close>, the item's own total as \<open>totalBytes\<close>, and as
  \<open>percent\<close> their quotient when the total is not zero and 0 when it is; and when
  \<open>onProgress\<close> was supplied and the item's window was found, the handler does pass one.
\<close>

theorem onProgress_payload:
  "(\<forall>p. OnProgress p \<in> set (fst (snd (updated_handler h w c i s))) \<longrightarrow>
        percent p = (if getTotalBytes (items w i) \<noteq> 0
                     then js_div (getReceivedBytes (items w i)) (getTotalBytes (items w i))
                     else Num 0) \<and>
        transferredBytes p = getReceivedBytes (items w i) \<and>
        progress_totalBytes p = getTotalBytes (items w i)) \<and>
   (onProgress (reg_options s) \<and> cl_window c \<noteq> None \<longrightarrow>
      (\<exists>p. OnProgress p \<in> set (fst (snd (updated_handler h w c i s)))))"
  by (auto simp add: updated_handler_def Let_def split: option.splits if_splits)

text \<open>Item 1 with 40 of 100 bytes, and item 3 with 25 bytes of an unknown total.\<close>

theorem onProgress_payload_witness:
  "onProgress (reg_options (sample_tracking progress_options)) \<and>
   cl_window (sample_closure progress_options) \<noteq> None \<and>
   OnProgress (Progress (Num (2 / 5)) 40 100)
     \<in> set (fst (snd (updated_handler sample_host received_world
                        (sample_closure progress_options) 1
                        (sample_tracking progress_options)))) \<and>
   OnProgress (Progress (Num 0) 25 0)
     \<in> set (fst (snd (updated_handler sample_host received_world
                        (sample_closure progress_options) 3
                        (sample_tracking progress_options))))"
proof -
  let ?c = "sample_closure progress_options" and ?s = "sample_tracking progress_options"
  have o: "onProgress (reg_options ?s)"
    by (simp add: closure_defs listener_reg_options registerListener_reg_options
        resolve_options_def progress_options_def no_options_def)
  have win: "cl_window ?c \<noteq> None"
    by (simp add: closure_defs listener_closure window7_def)
  have i1: "items received_world (Suc 0) =
      \<lparr>getFilename = ''report'', getMimeType = ''application/pdf'',
       getTotalBytes = 100, getReceivedBytes = 40\<rparr>"
    by (simp add: received_world_def sample_world_def sample_items_def)
  have i3: "items received_world 3 =
      \<lparr>getFilename = ''file.zip'', getMimeType = ''application/zip'',
       getTotalBytes = 0, getReceivedBytes = 25\<rparr>"
    by (simp add: received_world_def sample_world_def sample_items_def)
  have q: "js_div 40 100 = Num (2 / 5)" by (simp add: js_div_def)
  note t1 = onProgress_payload [of sample_host received_world ?c 1 ?s]
  note t3 = onProgress_payload [of sample_host received_world ?c 3 ?s]
  from t1 o win obtain p1 where
    p1: "OnProgress p1 \<in> set (fst (snd (updated_handler sample_host received_world ?c 1 ?s)))"
    by blast
  with t1 have "percent p1 = Num (2 / 5) \<and> transferredBytes p1 = 40 \<and> progress_totalBytes p1 = 100"
    by (simp add: i1 q)
  then have e1: "p1 = Progress (Num (2 / 5)) 40 100" by (cases p1) simp
  from t3 o win obtain p3 where
    p3: "OnProgress p3 \<in> set (fst (snd (updated_handler sample_host received_world ?c 3 ?s)))"
    by blast
  with t3 have "percent p3 = Num 0 \<and> transferredBytes p3 = 25 \<and> progress_totalBytes p3 = 0"
    by (simp add: i3)
  then have e3: "p3 = Progress (Num 0) 25 0" by (cases p3) simp
  from o win p1 p3 show ?thesis unfolding e1 e3 by blast
qed

section \<open>Revealing the file\<close>

lemma listener_effects:
  "snd (listener h w i wc s) =
     (if \<not> saveAs (reg_options s)
      then [SetSavePath i (filePath (snd (last (handlers (fst (listener h w i wc s))))))]
      else []) @
     (if onStarted (reg_options s) then [OnStarted i] else [])"
  by (simp add: listener_closure) (simp add: listener_def Let_def)

lemma or_default_cases:
  "or_default x d = (case x of None \<Rightarrow> d | Some s \<Rightarrow> if s = [] then d else s)"
  by (cases x) simp_all

lemma truthy_string_cases:
  "truthy_string x = (case x of None \<Rightarrow> False | Some s \<Rightarrow> s \<noteq> [])"
  by (cases x) simp_all

lemma done_handler_reveals:
  "ShowItemInFolder p \<in> set (fst (snd (done_handler h w c i st s))) \<Longrightarrow>
   p = path_join h (cl_directory c) (getFilename (items w i))"
  by (cases st)
    (auto simp add: done_handler_def done_dispatch_def Let_def split: option.splits if_splits)

text \<open>
  C10: every path a \<open>done\<close> handler reveals is the directory (the \<open>directory\<close>
  option, or the downloads directory when the option is missing or empty) joined with
  \<open>item.getFilename()\<close>, and this path is revealed when the item completes with
  \<open>openFolderWhenDone\<close> set and its window was found. The path given to
  \<open>setSavePath\<close> is another one: the directory joined with the \<open>filename\<close> option
  when there is one, and otherwise what \<open>unusedFilename.sync\<close> makes of the directory
  joined with the derived name.
\<close>

theorem openFolder_reveals_suggested_name:
  assumes "c = snd (last (handlers (fst (listener h w0 i wc s0))))"
    and "dir = (case directory (reg_options s0) of
                  None \<Rightarrow> app_getPath_downloads h
                | Some d \<Rightarrow> if d = [] then app_getPath_downloads h else d)"
    and "saved = (case filename (reg_options s0) of
                    None \<Rightarrow> unusedFilename_sync h (path_join h dir (derived_name h (items w0 i)))
                  | Some f \<Rightarrow>
                      if f = []
                      then unusedFilename_sync h (path_join h dir (derived_name h (items w0 i)))
                      else path_join h dir f)"
  shows "(\<forall>p st. ShowItemInFolder p \<in> set (fst (snd (done_handler h w c i st s))) \<longrightarrow>
            p = path_join h dir (getFilename (items w i))) \<and>
         (cl_window c \<noteq> None \<and> openFolderWhenDone (reg_options s) \<longrightarrow>
            ShowItemInFolder (path_join h dir (getFilename (items w i)))
              \<in> set (fst (snd (done_handler h w c i Completed s)))) \<and>
         (\<forall>j p. SetSavePath j p \<in> set (snd (listener h w0 i wc s0)) \<longrightarrow> j = i \<and> p = saved) \<and>
         (\<not> saveAs (reg_options s0) \<longrightarrow>
            SetSavePath i saved \<in> set (snd (listener h w0 i wc s0)))"
proof -
  have dir: "cl_directory c = dir"
    by (simp add: assms(1,2) listener_closure or_default_cases)
  have fp: "filePath c = saved"
    by (simp add: assms listener_closure or_default_cases truthy_string_cases
        split: option.split)
  have a: "\<forall>p st. ShowItemInFolder p \<in> set (fst (snd (done_handler h w c i st s))) \<longrightarrow>
            p = path_join h dir (getFilename (items w i))"
    using done_handler_reveals [of _ h w c i _ s] by (simp add: dir)
  have b: "cl_window c \<noteq> None \<and> openFolderWhenDone (reg_options s) \<longrightarrow>
            ShowItemInFolder (path_join h dir (getFilename (items w i)))
              \<in> set (fst (snd (done_handler h w c i Completed s)))"
    by (auto simp add: done_handler_def done_dispatch_def Let_def dir)
  have e: "snd (listener h w0 i wc s0) =
      (if \<not> saveAs (reg_options s0) then [SetSavePath i saved] else []) @
      (if onStarted (reg_options s0) then [OnStarted i] else [])"
    using fp by (simp add: listener_effects assms(1))
  have d: "\<forall>j p. SetSavePath j p \<in> set (snd (listener h w0 i wc s0)) \<longrightarrow> j = i \<and> p = saved"
    by (simp add: e)
  have f: "\<not> saveAs (reg_options s0) \<longrightarrow>
            SetSavePath i saved \<in> set (snd (listener h w0 i wc s0))"
    by (simp add: e)
  from a b d f show ?thesis by blast
qed

text \<open>
  The two paths differ when the \<open>filename\<close> option is given (with the directory
  \<open>/data\<close>: saved as \<open>invoice.pdf\<close>, revealed as \<open>file.zip\<close>) and when
  \<open>file.zip\<close> is already on disk (saved as \<open>file (1).zip\<close>, revealed as
  \<open>file.zip\<close>).
\<close>

theorem openFolder_reveals_suggested_name_witness:
  "directory (reg_options (sample_registered directory_options)) = Some ''/data'' \<and>
   filename (reg_options (sample_registered directory_options)) = Some ''invoice.pdf'' \<and>
   cl_window (sample_closure directory_options) \<noteq> None \<and>
   openFolderWhenDone (reg_options (sample_tracking directory_options)) \<and>
   ShowItemInFolder ''/data/file.zip''
     \<in> set (fst (snd (done_handler sample_host sample_world (sample_closure directory_options) 2
                        Completed (sample_tracking directory_options)))) \<and>
   SetSavePath 2 ''/data/invoice.pdf''
     \<in> set (snd (listener sample_host sample_world 2 window7
                   (sample_registered directory_options))) \<and>
   cl_window busy_closure \<noteq> None \<and>
   ShowItemInFolder ''/home/u/Downloads/file.zip''
     \<in> set (fst (snd (done_handler busy_host sample_world busy_closure 2
                        Completed (sample_tracking progress_options)))) \<and>
   SetSavePath 2 ''/home/u/Downloads/file (1).zip''
     \<in> set (snd (listener busy_host sample_world 2 window7
                   (sample_registered progress_options)))"
proof -
  let ?d = directory_options and ?p = progress_options
  have c: "sample_closure ?d =
      snd (last (handlers (fst (listener sample_host sample_world 2 window7
                                  (sample_registered ?d)))))"
    by (simp add: sample_closure_def sample_tracking_def)
  have win: "cl_window (sample_closure ?d) \<noteq> None"
    by (simp add: closure_defs listener_closure window7_def)
  have bwin: "cl_window busy_closure \<noteq> None"
    by (simp add: busy_closure_def listener_closure window7_def)
  have ro: "reg_options (sample_registered ?d) = ?d\<lparr>showBadge := Some True\<rparr>"
    by (simp add: sample_registered_def registerListener_reg_options resolve_options_def
        directory_options_def no_options_def)
  have fs: "directory (reg_options (sample_registered ?d)) = Some ''/data''"
    "filename (reg_options (sample_registered ?d)) = Some ''invoice.pdf''"
    "\<not> saveAs (reg_options (sample_registered ?d))"
    "openFolderWhenDone (reg_options (sample_registered ?d))"
    unfolding ro by (simp_all add: directory_options_def no_options_def)
  have f: "openFolderWhenDone (reg_options (sample_tracking ?d))"
    by (simp add: sample_tracking_def listener_reg_options fs)
  have bro: "reg_options (sample_registered ?p) = ?p\<lparr>showBadge := Some True\<rparr>"
    by (simp add: sample_registered_def registerListener_reg_options resolve_options_def
        progress_options_def no_options_def)
  have bfs: "directory (reg_options (sample_registered ?p)) = None"
    "filename (reg_options (sample_registered ?p)) = None"
    "\<not> saveAs (reg_options (sample_registered ?p))"
    "openFolderWhenDone (reg_options (sample_registered ?p))"
    unfolding bro by (simp_all add: progress_options_def no_options_def)
  have bf: "openFolderWhenDone (reg_options (sample_tracking ?p))"
    by (simp add: sample_tracking_def listener_reg_options bfs)
  have it: "getFilename (items sample_world 2) = ''file.zip''"
    by (simp add: sample_world_def sample_items_def)
  have dn: "derived_name busy_host (items sample_world 2) = ''file.zip''"
    by (simp add: derived_name_def busy_host_def sample_host_def sample_world_def
        sample_items_def sample_extname_def Let_def)
  have hj: "path_join sample_host = (\<lambda>d n. d @ ''/'' @ n)"
    by (simp add: sample_host_def)
  have bj: "path_join busy_host = (\<lambda>d n. d @ ''/'' @ n)"
    "app_getPath_downloads busy_host = ''/home/u/Downloads''"
    "unusedFilename_sync busy_host ''/home/u/Downloads/file.zip'' =
       ''/home/u/Downloads/file (1).zip''"
    by (simp_all add: busy_host_def sample_host_def)
  note t = openFolder_reveals_suggested_name [OF c refl refl,
      where w = sample_world and s = "sample_tracking ?d"]
  note bt = openFolder_reveals_suggested_name [OF busy_closure_def refl refl,
      where w = sample_world and s = "sample_tracking ?p"]
  from t win f have "ShowItemInFolder ''/data/file.zip''
     \<in> set (fst (snd (done_handler sample_host sample_world (sample_closure ?d) 2
                        Completed (sample_tracking ?d)))) \<and>
   SetSavePath 2 ''/data/invoice.pdf''
     \<in> set (snd (listener sample_host sample_world 2 window7 (sample_registered ?d)))"
    by (simp add: fs it hj)
  moreover from bt bwin bf have "ShowItemInFolder ''/home/u/Downloads/file.zip''
     \<in> set (fst (snd (done_handler busy_host sample_world busy_closure 2
                        Completed (sample_tracking ?p)))) \<and>
   SetSavePath 2 ''/home/u/Downloads/file (1).zip''
     \<in> set (snd (listener busy_host sample_world 2 window7 (sample_registered ?p)))"
    by (simp add: bfs it dn bj)
  ultimately show ?thesis using win bwin f fs by blast
qed

section \<open>A window that is gone\<close>

text \<open>
  C7 as stated fails. When \<open>BrowserWindow.fromWebContents\<close> finds no window, both
  handlers end in a \<open>TypeError\<close> at \<open>window_.isDestroyed()\<close>, after the counters and the
  badge and before the callbacks: the completion callback is not called. And when the window
  exists but is destroyed, the badge is not skipped: it is set as long as \<open>showBadge\<close> and
  the platform allow it.
\<close>

theorem no_window_handlers_throw:
  "snd (run sample_host no_window_scenario (sample_start no_options)) =
     [SetSavePath 2 ''/home/u/Downloads/file.zip'',
      SetBadgeCount 1, Uncaught TypeError,
      SetBadgeCount 0, Uncaught TypeError] \<and>
   snd (run sample_host destroyed_scenario (sample_start no_options)) =
     [SetSavePath 2 ''/home/u/Downloads/file.zip'',
      SetBadgeCount 1,
      SetBadgeCount 0, Callback None (Some 2)]"
  by (simp add: no_window_scenario_def destroyed_scenario_def sample_defs)

text \<open>
  C7 as amended: for an item whose window was found and has been destroyed since, neither
  handler throws and neither touches the progress bar. The \<open>updated\<close> handler still
  recomputes \<open>receivedBytes\<close>, sets the badge when enabled and calls \<open>onProgress\<close> when
  supplied. The \<open>done\<close> handler still adds the item's total to \<open>completedBytes\<close> and
  removes the item, resets no counter, sets the badge when enabled, and calls the
  completion callback for a completed and for an interrupted item.
\<close>

theorem destroyed_window_skips_progress_bar_only:
  assumes "cl_window c = Some win" and "isDestroyed w win"
  shows "snd (snd (updated_handler h w c i s)) = None \<and>
         (\<forall>win' x. SetProgressBar win' x \<notin> set (fst (snd (updated_handler h w c i s)))) \<and>
         fst (updated_handler h w c i s) =
           s\<lparr>receivedBytes := completedBytes s + sum_active_received w s\<rparr> \<and>
         (badge_enabled h (reg_options s) \<longrightarrow>
            SetBadgeCount (length (downloadItems s))
              \<in> set (fst (snd (updated_handler h w c i s)))) \<and>
         (onProgress (reg_options s) \<longrightarrow>
            (\<exists>p. OnProgress p \<in> set (fst (snd (updated_handler h w c i s))))) \<and>
         snd (snd (done_handler h w c i st s)) = None \<and>
         (\<forall>win' x. SetProgressBar win' x \<notin> set (fst (snd (done_handler h w c i st s)))) \<and>
         completedBytes (fst (done_handler h w c i st s)) =
           completedBytes s + getTotalBytes (items w i) \<and>
         downloadItems (fst (done_handler h w c i st s)) = set_delete i (downloadItems s) \<and>
         receivedBytes (fst (done_handler h w c i st s)) = receivedBytes s \<and>
         totalBytes (fst (done_handler h w c i st s)) = totalBytes s \<and>
         (badge_enabled h (reg_options s) \<longrightarrow>
            SetBadgeCount (length (set_delete i (downloadItems s)))
              \<in> set (fst (snd (done_handler h w c i st s)))) \<and>
         (st = Completed \<longrightarrow>
            Callback None (Some i) \<in> set (fst (snd (done_handler h w c i st s)))) \<and>
         (st = Interrupted \<longrightarrow>
            Callback (Some (pupa h (cl_errorMessage c) (getFilename (items w i)))) None
              \<in> set (fst (snd (done_handler h w c i st s))))"
proof -
  have u: "snd (updated_handler h w c i s) =
      ((if badge_enabled h (reg_options s) then [SetBadgeCount (length (downloadItems s))]
        else []) @
       (if onProgress (reg_options s)
        then [OnProgress
                (Progress
                   (if getTotalBytes (items w i) \<noteq> 0
                    then js_div (getReceivedBytes (items w i)) (getTotalBytes (items w i))
                    else Num 0)
                   (getReceivedBytes (items w i)) (getTotalBytes (items w i)))]
        else []),
       None)"
    using assms by (simp add: updated_handler_def Let_def activeDownloadItems_def)
  have d: "\<And>st. done_handler h w c i st s =
      ((if unregisterWhenDone (reg_options s) \<and> webview (reg_options s) = None
        then s\<lparr>completedBytes := completedBytes s + getTotalBytes (items w i),
               downloadItems := set_delete i (downloadItems s), listening := False\<rparr>
        else s\<lparr>completedBytes := completedBytes s + getTotalBytes (items w i),
               downloadItems := set_delete i (downloadItems s)\<rparr>),
       (if badge_enabled h (reg_options s)
        then [SetBadgeCount (length (set_delete i (downloadItems s)))] else []) @
       (if unregisterWhenDone (reg_options s) \<and> webview (reg_options s) = None
        then [RemoveListener] else []) @
       done_dispatch h (items w i) (reg_options s) c i st,
       None)"
    using assms by (simp add: done_handler_def Let_def activeDownloadItems_def)
  have dd: "\<forall>win' x. SetProgressBar win' x
      \<notin> set (done_dispatch h (items w i) (reg_options s) c i st)"
    by (cases st) (simp_all add: done_dispatch_def Let_def)
  have dc: "st = Completed \<longrightarrow>
      Callback None (Some i) \<in> set (done_dispatch h (items w i) (reg_options s) c i st)"
    by (simp add: done_dispatch_def)
  have di: "st = Interrupted \<longrightarrow>
      Callback (Some (pupa h (cl_errorMessage c) (getFilename (items w i)))) None
        \<in> set (done_dispatch h (items w i) (reg_options s) c i st)"
    by (simp add: done_dispatch_def Let_def)
  have 1: "snd (snd (updated_handler h w c i s)) = None" by (simp add: u)
  have 2: "\<forall>win' x. SetProgressBar win' x \<notin> set (fst (snd (updated_handler h w c i s)))"
    by (simp add: u)
  have 3: "badge_enabled h (reg_options s) \<longrightarrow>
            SetBadgeCount (length (downloadItems s))
              \<in> set (fst (snd (updated_handler h w c i s)))"
    by (simp add: u)
  have 4: "onProgress (reg_options s) \<longrightarrow>
            (\<exists>p. OnProgress p \<in> set (fst (snd (updated_handler h w c i s))))"
    by (simp add: u)
  have 5: "snd (snd (done_handler h w c i st s)) = None" by (simp add: d)
  have 6: "\<forall>win' x. SetProgressBar win' x \<notin> set (fst (snd (done_handler h w c i st s)))"
    using dd by (simp add: d)
  have 7: "completedBytes (fst (done_handler h w c i st s)) =
           completedBytes s + getTotalBytes (items w i) \<and>
         downloadItems (fst (done_handler h w c i st s)) = set_delete i (downloadItems s) \<and>
         receivedBytes (fst (done_handler h w c i st s)) = receivedBytes s \<and>
         totalBytes (fst (done_handler h w c i st s)) = totalBytes s"
    by (simp add: d)
  have 8: "badge_enabled h (reg_options s) \<longrightarrow>
            SetBadgeCount (length (set_delete i (downloadItems s)))
              \<in> set (fst (snd (done_handler h w c i st s)))"
    by (simp add: d)
  have 9: "st = Completed \<longrightarrow>
            Callback None (Some i) \<in> set (fst (snd (done_handler h w c i st s)))"
    using dc by (simp add: d)
  have 10: "st = Interrupted \<longrightarrow>
            Callback (Some (pupa h (cl_errorMessage c) (getFilename (items w i)))) None
              \<in> set (fst (snd (done_handler h w c i st s)))"
    using di by (simp add: d)
  from 1 2 3 4 5 6 7 8 9 10 show ?thesis
    by (simp add: updated_handler_state)
qed

lemma sample_tracking_counters:
  "webview opts = None \<Longrightarrow>
   completedBytes (sample_tracking opts) = 0 \<and> downloadItems (sample_tracking opts) = [2]"
  by (simp add: closure_defs registerListener_def listener_def set_add_def Let_def
      resolve_options_def)

text \<open>Item 2 of 200 bytes completes after window 7 was destroyed.\<close>

theorem destroyed_window_skips_progress_bar_only_witness:
  "cl_window (sample_closure progress_options) = Some 7 \<and>
   isDestroyed destroyed_world 7 \<and>
   snd (snd (updated_handler sample_host destroyed_world (sample_closure progress_options) 2
               (sample_tracking progress_options))) = None \<and>
   snd (snd (done_handler sample_host destroyed_world (sample_closure progress_options) 2
               Completed (sample_tracking progress_options))) = None \<and>
   Callback None (Some 2)
     \<in> set (fst (snd (done_handler sample_host destroyed_world
                        (sample_closure progress_options) 2 Completed
                        (sample_tracking progress_options)))) \<and>
   downloadItems (fst (done_handler sample_host destroyed_world
                         (sample_closure progress_options) 2 Completed
                         (sample_tracking progress_options))) = [] \<and>
   completedBytes (fst (done_handler sample_host destroyed_world
                          (sample_closure progress_options) 2 Completed
                          (sample_tracking progress_options))) = 200"
proof -
  have win: "cl_window (sample_closure progress_options) = Some 7"
    by (simp add: closure_defs listener_closure window7_def)
  have gone: "isDestroyed destroyed_world 7"
    by (simp add: destroyed_world_def)
  have it: "getTotalBytes (items destroyed_world 2) = 200"
    by (simp add: destroyed_world_def sample_world_def sample_items_def)
  note t = destroyed_window_skips_progress_bar_only [OF win gone, of sample_host 2
      "sample_tracking progress_options" Completed]
  have nw: "webview progress_options = None"
    by (simp add: progress_options_def no_options_def)
  from t win gone show ?thesis
    by (simp add: it sample_tracking_counters [OF nw] set_delete_def)
qed

section \<open>Removing the session listener\<close>

lemma emit_preserves:
  assumes "\<And>c s. P s \<Longrightarrow> P (fst (f c s))" and "P s"
  shows "P (fst (emit f cs s))"
  using assms(2)
proof (induction cs arbitrary: s)
  case Nil
  then show ?case by simp
next
  case (Cons c cs)
  obtain s' es r where f: "f c s = (s', es, r)" by (cases "f c s")
  have s': "P s'" using assms(1) [OF Cons.prems, of c] by (simp add: f)
  show ?case
  proof (cases r)
    case None
    from Cons.IH [OF s'] show ?thesis by (simp add: f None split_def Let_def)
  next
    case (Some err)
    with s' show ?thesis by (simp add: f)
  qed
qed









section \<open>The reset of the counters\<close>

text \<open>
  C2 as stated fails: the reset is guarded by \<open>!window_.isDestroyed()\<close>. When the window
  of the last item is destroyed before its \<open>done\<close>, the active set becomes empty and the
  counters keep their values.
\<close>

theorem no_reset_when_window_destroyed:
  "downloadItems (snd (fst (run sample_host closed_window_scenario (sample_start no_options)))) = [] \<and>
   receivedBytes (snd (fst (run sample_host closed_window_scenario (sample_start no_options)))) = 300 \<and>
   completedBytes (snd (fst (run sample_host closed_window_scenario (sample_start no_options)))) = 300 \<and>
   totalBytes (snd (fst (run sample_host closed_window_scenario (sample_start no_options)))) = 300"
  by (simp add: closed_window_scenario_def sample_defs)

lemma run_Cons_fst: "fst (run h (ev # evs) st) = fst (run h evs (fst (step h ev st)))"
  by (simp add: split_def Let_def)

lemma done_handler_downloadItems:
  "downloadItems (fst (done_handler h w c i st s)) = set_delete i (downloadItems s)"
  by (simp add: done_handler_def Let_def split: option.split)

lemma done_handler_handlers: "handlers (fst (done_handler h w c i st s)) = handlers s"
  by (simp add: done_handler_def Let_def split: option.split)

lemma set_delete_idem: "set_delete i (set_delete i xs) = set_delete i xs"
  by (simp add: set_delete_def)

lemma emit_done_downloadItems:
  "downloadItems (fst (emit (\<lambda>c. done_handler h w c i st) cs s)) =
     (if cs = [] then downloadItems s else set_delete i (downloadItems s))"
proof (induction cs arbitrary: s)
  case Nil
  then show ?case by simp
next
  case (Cons c cs)
  obtain s' es r where f: "done_handler h w c i st s = (s', es, r)"
    by (cases "done_handler h w c i st s")
  have s': "downloadItems s' = set_delete i (downloadItems s)"
    using done_handler_downloadItems [of h w c i st s] by (simp add: f)
  show ?case
  proof (cases r)
    case None
    from Cons.IH [of s'] show ?thesis
      by (simp add: f None split_def Let_def s' set_delete_idem)
  next
    case (Some err)
    with s' show ?thesis by (simp add: f)
  qed
qed

lemma emit_updated_downloadItems:
  "downloadItems (fst (emit (\<lambda>c. updated_handler h w c i) cs s)) = downloadItems s"
  using emit_preserves [of "\<lambda>t. downloadItems t = downloadItems s" "\<lambda>c. updated_handler h w c i" s cs]
  by (simp add: updated_handler_state)

lemma emit_updated_handlers:
  "handlers (fst (emit (\<lambda>c. updated_handler h w c i) cs s)) = handlers s"
  using emit_preserves [of "\<lambda>t. handlers t = handlers s" "\<lambda>c. updated_handler h w c i" s cs]
  by (simp add: updated_handler_state)

lemma emit_done_handlers:
  "handlers (fst (emit (\<lambda>c. done_handler h w c i st) cs s)) = handlers s"
  using emit_preserves [of "\<lambda>t. handlers t = handlers s" "\<lambda>c. done_handler h w c i st" s cs]
  by (simp add: done_handler_handlers)

lemma listener_downloadItems:
  "downloadItems (fst (listener h w i wc s)) = set_add i (downloadItems s)"
  by (simp add: listener_def Let_def)

lemma set_set_add: "set (set_add i xs) = insert i (set xs)"
  by (auto simp add: set_add_def)

lemma set_set_delete: "set (set_delete i xs) = set xs - {i}"
  by (auto simp add: set_delete_def)

lemma handlers_of_empty_iff: "handlers_of i s = [] \<longleftrightarrow> i \<notin> fst ` set (handlers s)"
  by (auto simp add: handlers_of_def filter_empty_conv)

lemma step_active:
  assumes "active_tracked s" and "set (downloadItems s) \<subseteq> A"
  shows "active_tracked (snd (fst (step h ev (w, s)))) \<and>
         set (downloadItems (snd (fst (step h ev (w, s))))) \<subseteq> pending_step A ev"
proof (cases ev)
  case (WillDownload i wc)
  with assms show ?thesis
    by (auto simp add: split_def Let_def active_tracked_def listener_downloadItems
        listener_closure set_set_add)
next
  case (ItemUpdated i)
  with assms show ?thesis
    by (simp add: split_def Let_def active_tracked_def emit_updated_downloadItems
        emit_updated_handlers)
next
  case (ItemDone i st)
  with assms show ?thesis
    by (auto simp add: split_def Let_def active_tracked_def emit_done_downloadItems
        emit_done_handlers set_set_delete handlers_of_empty_iff)
next
  case (HostReceived i n)
  with assms show ?thesis by simp
next
  case (HostDestroyWindow win)
  with assms show ?thesis by simp
qed

lemma run_active:
  "active_tracked (snd st) \<Longrightarrow> set (downloadItems (snd st)) \<subseteq> A \<Longrightarrow>
   set (downloadItems (snd (fst (run h evs st)))) \<subseteq> foldl pending_step A evs"
proof (induction evs arbitrary: st A)
  case Nil
  then show ?case by simp
next
  case (Cons ev evs)
  obtain w s where st: "st = (w, s)" by (cases st)
  from step_active [of s A h ev w] Cons.prems
  have "active_tracked (snd (fst (step h ev st)))"
    and "set (downloadItems (snd (fst (step h ev st)))) \<subseteq> pending_step A ev"
    by (simp_all add: st)
  from Cons.IH [OF this] show ?case by (simp add: run_Cons_fst del: run.simps)
qed

lemma registerListener_active_tracked: "active_tracked (fst (registerListener h w opts))"
  by (auto simp add: registerListener_def Let_def active_tracked_def listener_downloadItems
      listener_closure set_set_add split: option.split)

lemma done_handler_reset:
  assumes "window_alive w c" and "set_delete i (downloadItems s) = []"
  shows "snd (snd (done_handler h w c i st s)) = None \<and>
         downloadItems (fst (done_handler h w c i st s)) = [] \<and>
         receivedBytes (fst (done_handler h w c i st s)) = 0 \<and>
         completedBytes (fst (done_handler h w c i st s)) = 0 \<and>
         totalBytes (fst (done_handler h w c i st s)) = 0"
  using assms
  by (auto simp add: done_handler_def Let_def activeDownloadItems_def window_alive_def
      split: option.splits)

lemma emit_done_reset:
  assumes "cs \<noteq> []" and "list_all (window_alive w) cs"
    and "set_delete i (downloadItems s) = []"
  shows "downloadItems (fst (emit (\<lambda>c. done_handler h w c i st) cs s)) = [] \<and>
         receivedBytes (fst (emit (\<lambda>c. done_handler h w c i st) cs s)) = 0 \<and>
         completedBytes (fst (emit (\<lambda>c. done_handler h w c i st) cs s)) = 0 \<and>
         totalBytes (fst (emit (\<lambda>c. done_handler h w c i st) cs s)) = 0"
  using assms
proof (induction cs arbitrary: s)
  case Nil
  then show ?case by simp
next
  case (Cons c cs)
  obtain s' es r where f: "done_handler h w c i st s = (s', es, r)"
    by (cases "done_handler h w c i st s")
  from Cons.prems have alive: "window_alive w c" and rest: "list_all (window_alive w) cs"
    by simp_all
  from done_handler_reset [OF alive Cons.prems(3), of h st]
  have r: "r = None" and s': "downloadItems s' = []" "receivedBytes s' = 0"
    "completedBytes s' = 0" "totalBytes s' = 0"
    by (simp_all add: f)
  show ?case
  proof (cases "cs = []")
    case True
    with r s' show ?thesis by (simp add: f)
  next
    case False
    have "set_delete i (downloadItems s') = []" by (simp add: s' set_delete_def)
    from Cons.IH [OF False rest this] show ?thesis
      by (simp add: f r split_def Let_def)
  qed
qed

text \<open>
  C2 as amended: take any sequence of events on a fresh registration after which no item
  other than \<open>i\<close> is started and not yet done, and let every handler of \<open>i\<close> have a window
  that was found and is not destroyed. Then the \<open>done\<close> event of \<open>i\<close>, whatever the
  terminal state, leaves the active set empty and the three counters at 0.
\<close>

theorem last_done_resets_counters:
  assumes "fst (run h evs (w0, fst (registerListener h w0 opts))) = (w, s)"
    and "pending (downloadItems (fst (registerListener h w0 opts))) evs \<subseteq> {i}"
    and "handlers_of i s \<noteq> []"
    and "list_all (window_alive w) (handlers_of i s)"
  shows "downloadItems (snd (fst (step h (ItemDone i st) (w, s)))) = [] \<and>
         receivedBytes (snd (fst (step h (ItemDone i st) (w, s)))) = 0 \<and>
         completedBytes (snd (fst (step h (ItemDone i st) (w, s)))) = 0 \<and>
         totalBytes (snd (fst (step h (ItemDone i st) (w, s)))) = 0"
proof -
  let ?s0 = "fst (registerListener h w0 opts)"
  from run_active [of "(w0, ?s0)" "set (downloadItems ?s0)" h evs]
  have "set (downloadItems s) \<subseteq> pending (downloadItems ?s0) evs"
    by (simp add: registerListener_active_tracked assms(1) pending_def)
  with assms(2) have "set (downloadItems s) \<subseteq> {i}" by blast
  then have "set_delete i (downloadItems s) = []"
    by (auto simp add: set_delete_def filter_empty_conv)
  from emit_done_reset [OF assms(3,4) this, of h st]
  show ?thesis by (simp add: split_def Let_def)
qed

text \<open>
  The scenario of the specification with window 7 alive: before the last \<open>done\<close> the
  counters stand at 100 completed of 300, after it everything is 0.
\<close>

theorem last_done_resets_counters_witness:
  "pending (downloadItems (fst (registerListener sample_host sample_world no_options)))
     two_items_scenario \<subseteq> {2} \<and>
   handlers_of 2 (snd (fst (run sample_host two_items_scenario (sample_start no_options)))) \<noteq> [] \<and>
   completedBytes (snd (fst (run sample_host two_items_scenario (sample_start no_options)))) = 100 \<and>
   totalBytes (snd (fst (run sample_host two_items_scenario (sample_start no_options)))) = 300 \<and>
   downloadItems
     (snd (fst (step sample_host (ItemDone 2 Completed)
                  (fst (run sample_host two_items_scenario (sample_start no_options)))))) = [] \<and>
   receivedBytes
     (snd (fst (step sample_host (ItemDone 2 Completed)
                  (fst (run sample_host two_items_scenario (sample_start no_options)))))) = 0 \<and>
   completedBytes
     (snd (fst (step sample_host (ItemDone 2 Completed)
                  (fst (run sample_host two_items_scenario (sample_start no_options)))))) = 0 \<and>
   totalBytes
     (snd (fst (step sample_host (ItemDone 2 Completed)
                  (fst (run sample_host two_items_scenario (sample_start no_options)))))) = 0"
proof -
  let ?X = "fst (run sample_host two_items_scenario (sample_start no_options))"
  have x: "fst (run sample_host two_items_scenario
                  (sample_world, fst (registerListener sample_host sample_world no_options))) =
           (fst ?X, snd ?X)"
    by (simp add: sample_start_def)
  have p: "pending (downloadItems (fst (registerListener sample_host sample_world no_options)))
     two_items_scenario \<subseteq> {2}"
    by (auto simp add: pending_def two_items_scenario_def registerListener_def
        resolve_options_def no_options_def Let_def)
  have hs: "handlers_of 2 (snd ?X) \<noteq> []"
    by (simp add: two_items_scenario_def sample_defs)
  have al: "list_all (window_alive (fst ?X)) (handlers_of 2 (snd ?X))"
    by (simp add: two_items_scenario_def window_alive_def sample_defs)
  have before: "completedBytes (snd ?X) = 100 \<and> totalBytes (snd ?X) = 300"
    by (simp add: two_items_scenario_def sample_defs)
  from last_done_resets_counters [OF x p hs al, of Completed] p hs before
  show ?thesis by simp
qed

end
